theory Spec2Isabelle
  imports Complex_Main
begin

section \<open>The ticket API of \<open>src/index.js\<close>\<close>

subsection \<open>JavaScript values that come out of a JSON reader\<close>

text \<open>
  Every value the handlers touch was produced by \<open>JSON.parse\<close>: the request body (by the
  \<open>express.json()\<close> middleware) and the content of \<open>tickets.json\<close>. Such a value is
  null, a boolean, a number, a string, an array or an object. A number is a finite double, the
  negative zero (the text \<open>-0\<close>) or an infinity (a literal too large for a double, such as
  \<open>1e999\<close>); \<open>NaN\<close> is never produced. No arithmetic is done on numbers, so a finite
  double is represented by the rational it denotes. An object is the list of its own
  properties, each name once; a property that is not in the list reads as \<open>undefined\<close>,
  modelled by \<open>None\<close>.
\<close>

datatype jsnum = Finite rat | NegZero | PosInf | NegInf

datatype json =
    JNull
  | JBool bool
  | JNum jsnum
  | JStr string
  | JArr "json list"
  | JObj "(string \<times> json) list"

text \<open>
  A text (the content of the file, the body of a response) is identified by what
  \<open>JSON.parse\<close> makes of it: either it raises a \<open>SyntaxError\<close>, or it returns a value.
\<close>

datatype jstext = Garbage | Document json

datatype jserror = ENOENT | EACCES | SyntaxError | TypeError

text \<open>The operand test of \<open>!x\<close> and \<open>if (x)\<close>.\<close>

fun truthy :: "json \<Rightarrow> bool" where
  "truthy JNull = False"
| "truthy (JBool b) = b"
| "truthy (JNum (Finite r)) = (r \<noteq> 0)"
| "truthy (JNum NegZero) = False"
| "truthy (JNum PosInf) = True"
| "truthy (JNum NegInf) = True"
| "truthy (JStr s) = (s \<noteq> [])"
| "truthy (JArr xs) = True"
| "truthy (JObj kvs) = True"

text \<open>
  \<open>JSON.stringify v\<close> writes \<open>-0\<close> as \<open>0\<close> and an infinity as \<open>null\<close>, at every
  depth, and everything else as it is (none of the values here is \<open>undefined\<close> or a
  function). \<open>rendered v\<close> is the value a JSON reader gets back from that text.
\<close>

primrec rendered :: "json \<Rightarrow> json" where
  "rendered JNull = JNull"
| "rendered (JBool b) = JBool b"
| "rendered (JNum n) =
     (case n of Finite r \<Rightarrow> JNum (Finite r) | NegZero \<Rightarrow> JNum (Finite 0)
      | PosInf \<Rightarrow> JNull | NegInf \<Rightarrow> JNull)"
| "rendered (JStr s) = JStr s"
| "rendered (JArr xs) = JArr (map rendered xs)"
| "rendered (JObj kvs) = JObj (map (map_prod id rendered) kvs)"

definition JSON_stringify :: "json \<Rightarrow> jstext" where
  "JSON_stringify v = Document (rendered v)"

fun JSON_parse :: "jstext \<Rightarrow> jserror + json" where
  "JSON_parse Garbage = Inl SyntaxError"
| "JSON_parse (Document v) = Inr v"

text \<open>Property access \<open>v.k\<close> on a value that is not null.\<close>

fun field :: "json \<Rightarrow> string \<Rightarrow> json option" where
  "field (JObj kvs) k = map_of kvs k"
| "field v k = None"

text \<open>\<open>tickets.push(x)\<close>: only an array has a \<open>push\<close> that can be called.\<close>

fun push :: "json \<Rightarrow> json \<Rightarrow> jserror + json" where
  "push (JArr xs) x = Inr (JArr (xs @ [x]))"
| "push v x = Inl TypeError"

subsection \<open>The file, the console and the environment of a call\<close>

datatype fsfile = Absent | Stored jstext

datatype logline = Error_reading_tickets jserror | Error_writing_tickets jserror

record state =
  ticketsFile :: fsfile
  console :: "logline list"

text \<open>
  What a call takes from outside the program: the identifier \<open>uuidv4()\<close> returns, the
  text \<open>new Date().toISOString()\<close> returns, and whether the storage accepts a write.
\<close>

record env =
  uuidv4 :: string
  toISOString :: string
  writable :: bool

definition existsSync :: "state \<Rightarrow> bool" where
  "existsSync s = (ticketsFile s \<noteq> Absent)"

definition readFileSync :: "state \<Rightarrow> jserror + jstext" where
  "readFileSync s = (case ticketsFile s of Absent \<Rightarrow> Inl ENOENT | Stored t \<Rightarrow> Inr t)"

definition writeFileSync :: "env \<Rightarrow> jstext \<Rightarrow> state \<Rightarrow> jserror + state" where
  "writeFileSync e t s = (if writable e then Inr (s\<lparr>ticketsFile := Stored t\<rparr>) else Inl EACCES)"

definition console_error :: "logline \<Rightarrow> state \<Rightarrow> state" where
  "console_error l s = s\<lparr>console := console s @ [l]\<rparr>"

subsection \<open>The store functions\<close>

text \<open>\<open>initializeTicketsFile\<close> has no \<open>try\<close>: a failing write raises out of it.\<close>

definition initializeTicketsFile :: "env \<Rightarrow> state \<Rightarrow> jserror + state" where
  "initializeTicketsFile e s =
     (if \<not> existsSync s then writeFileSync e (JSON_stringify (JArr [])) s else Inr s)"

definition readTickets :: "state \<Rightarrow> json \<times> state" where
  "readTickets s =
     (case readFileSync s of
        Inl err \<Rightarrow> (JArr [], console_error (Error_reading_tickets err) s)
      | Inr data \<Rightarrow>
          (case JSON_parse data of
             Inl err \<Rightarrow> (JArr [], console_error (Error_reading_tickets err) s)
           | Inr v \<Rightarrow> (v, s)))"

definition writeTickets :: "env \<Rightarrow> json \<Rightarrow> state \<Rightarrow> state" where
  "writeTickets e tickets s =
     (case writeFileSync e (JSON_stringify tickets) s of
        Inl err \<Rightarrow> console_error (Error_writing_tickets err) s
      | Inr s' \<Rightarrow> s')"

subsection \<open>The request handlers\<close>

text \<open>
  A handler either sends a response (\<open>res.status(n).json(v)\<close>, the body being
  \<open>JSON.stringify v\<close>) or raises; what Express then does with the error is outside the
  program. The body of a request is an object.
\<close>

datatype outcome = Sent nat jstext | Threw jserror

type_synonym request = "(string \<times> json) list"

definition rejected :: outcome where
  "rejected =
     Sent 400 (JSON_stringify (JObj [(''error'', JStr ''Title and description are required fields'')]))"

definition newTicket :: "env \<Rightarrow> json \<Rightarrow> json \<Rightarrow> json" where
  "newTicket e title description =
     JObj [(''id'', JStr (uuidv4 e)), (''title'', title), (''description'', description),
           (''createdAt'', JStr (toISOString e))]"

definition post_tickets :: "env \<Rightarrow> request \<Rightarrow> state \<Rightarrow> outcome \<times> state" where
  "post_tickets e body s =
     (case (map_of body ''title'', map_of body ''description'') of
        (Some title, Some description) \<Rightarrow>
          if \<not> truthy title \<or> \<not> truthy description then (rejected, s)
          else
            (case readTickets s of
               (tickets, s1) \<Rightarrow>
                 (case push tickets (newTicket e title description) of
                    Inl err \<Rightarrow> (Threw err, s1)
                  | Inr tickets' \<Rightarrow>
                      (Sent 201 (JSON_stringify (newTicket e title description)),
                       writeTickets e tickets' s1)))
      | _ \<Rightarrow> (rejected, s))"

definition get_tickets :: "state \<Rightarrow> outcome \<times> state" where
  "get_tickets s = (case readTickets s of (tickets, s1) \<Rightarrow> (Sent 200 (JSON_stringify tickets), s1))"

definition get_health :: "state \<Rightarrow> outcome \<times> state" where
  "get_health s = (Sent 200 (JSON_stringify (JObj [(''status'', JStr ''OK'')])), s)"

text \<open>A sequence of create requests, each with its own environment, one after the other.\<close>

fun run :: "(env \<times> request) list \<Rightarrow> state \<Rightarrow> state" where
  "run [] s = s"
| "run ((e, body) # cs) s = run cs (snd (post_tickets e body s))"

text \<open>The collection \<open>readTickets\<close> finds in a state, when it is an array.\<close>

definition persisted :: "state \<Rightarrow> json list" where
  "persisted s = (case fst (readTickets s) of JArr xs \<Rightarrow> xs | _ \<Rightarrow> [])"

text \<open>
  The create requests whose ticket reaches the file when the collection read is an array:
  those that pass the test \<open>!title || !description\<close> and whose write the storage accepts.
\<close>

definition stores :: "env \<Rightarrow> request \<Rightarrow> bool" where
  "stores e body =
     (case (map_of body ''title'', map_of body ''description'') of
        (Some title, Some description) \<Rightarrow> truthy title \<and> truthy description \<and> writable e
      | _ \<Rightarrow> False)"

section \<open>Facts about the store functions\<close>

lemma rendered_idem: "rendered (rendered v) = rendered v"
  by (induction v) (auto split: jsnum.splits)

lemma rendered_string: "rendered v = JStr u \<longleftrightarrow> v = JStr u"
  by (cases v) (auto split: jsnum.splits)

lemma map_of_rendered: "map_of (map (map_prod id rendered) kvs) k = map_option rendered (map_of kvs k)"
  by (induction kvs) auto

lemma field_rendered: "field (rendered t) k = map_option rendered (field t k)"
  by (cases t) (auto simp: map_of_rendered split: jsnum.splits)

lemma readTickets_absent:
  "ticketsFile s = Absent \<Longrightarrow> readTickets s = (JArr [], console_error (Error_reading_tickets ENOENT) s)"
  by (simp add: readTickets_def readFileSync_def)

lemma readTickets_garbage:
  "ticketsFile s = Stored Garbage \<Longrightarrow>
     readTickets s = (JArr [], console_error (Error_reading_tickets SyntaxError) s)"
  by (simp add: readTickets_def readFileSync_def)

lemma readTickets_document:
  "ticketsFile s = Stored (Document v) \<Longrightarrow> readTickets s = (v, s)"
  by (simp add: readTickets_def readFileSync_def)

lemma file_cases:
  obtains "ticketsFile s = Absent" | "ticketsFile s = Stored Garbage"
  | v where "ticketsFile s = Stored (Document v)"
proof (cases "ticketsFile s")
  case Absent
  then show ?thesis using that by simp
next
  case (Stored t)
  then show ?thesis using that by (cases t) simp_all
qed

lemma readTickets_file: "ticketsFile (snd (readTickets s)) = ticketsFile s"
  by (rule file_cases [of s])
     (simp_all add: readTickets_absent readTickets_garbage readTickets_document console_error_def)

lemma readTickets_cong:
  assumes "ticketsFile s' = ticketsFile s"
  shows "fst (readTickets s') = fst (readTickets s)"
  using assms
  by (cases rule: file_cases [of s])
     (simp_all add: readTickets_absent readTickets_garbage readTickets_document)

lemma post_tickets_unfold:
  assumes "map_of body ''title'' = Some title" "map_of body ''description'' = Some description"
    "truthy title" "truthy description"
  shows "post_tickets e body s =
     (case push (fst (readTickets s)) (newTicket e title description) of
        Inl err \<Rightarrow> (Threw err, snd (readTickets s))
      | Inr tickets' \<Rightarrow>
          (Sent 201 (Document (rendered (newTicket e title description))),
           writeTickets e tickets' (snd (readTickets s))))"
  using assms by (simp add: post_tickets_def JSON_stringify_def case_prod_beta split: sum.splits)

lemma post_tickets_valid:
  assumes "map_of body ''title'' = Some title" "map_of body ''description'' = Some description"
    "truthy title" "truthy description" "fst (readTickets s) = JArr xs"
  shows "post_tickets e body s =
     (Sent 201 (Document (rendered (newTicket e title description))),
      writeTickets e (JArr (xs @ [newTicket e title description])) (snd (readTickets s)))"
  using assms by (simp add: post_tickets_unfold)

lemma writeTickets_ok:
  "writable e \<Longrightarrow> writeTickets e v s = s\<lparr>ticketsFile := Stored (Document (rendered v))\<rparr>"
  by (simp add: writeTickets_def writeFileSync_def JSON_stringify_def)

lemma writeTickets_fail:
  "\<not> writable e \<Longrightarrow> writeTickets e v s = console_error (Error_writing_tickets EACCES) s"
  by (simp add: writeTickets_def writeFileSync_def)

lemma persisted_cong: "ticketsFile s' = ticketsFile s \<Longrightarrow> persisted s' = persisted s"
  unfolding persisted_def by (drule readTickets_cong) simp

lemma post_tickets_file:
  "ticketsFile (snd (post_tickets e body s)) = ticketsFile s
   \<or> (\<exists>title description xs. map_of body ''title'' = Some title
        \<and> map_of body ''description'' = Some description
        \<and> truthy title \<and> truthy description \<and> writable e \<and> fst (readTickets s) = JArr xs
        \<and> ticketsFile (snd (post_tickets e body s)) =
            Stored (Document (JArr (map rendered xs @ [rendered (newTicket e title description)]))))"
proof (cases "map_of body ''title''")
  case None
  then show ?thesis by (simp add: post_tickets_def)
next
  case title: (Some title)
  show ?thesis
  proof (cases "map_of body ''description''")
    case None
    then show ?thesis by (simp add: post_tickets_def title)
  next
    case description: (Some description)
    show ?thesis
    proof (cases "truthy title \<and> truthy description")
      case False
      then show ?thesis by (auto simp: post_tickets_def title description)
    next
      case valid: True
      show ?thesis
      proof (cases "\<exists>xs. fst (readTickets s) = JArr xs")
        case False
        then have "\<exists>err. push (fst (readTickets s)) (newTicket e title description) = Inl err"
          by (cases "fst (readTickets s)") simp_all
        then obtain err where "push (fst (readTickets s)) (newTicket e title description) = Inl err" ..
        then have "post_tickets e body s = (Threw err, snd (readTickets s))"
          using valid by (simp add: post_tickets_unfold [OF title description])
        then show ?thesis by (simp add: readTickets_file)
      next
        case True
        then obtain xs where xs: "fst (readTickets s) = JArr xs" ..
        note p = post_tickets_valid [OF title description _ _ xs, of e]
        show ?thesis
        proof (cases "writable e")
          case True
          then show ?thesis
            using valid xs title description by (simp add: p writeTickets_ok)
        next
          case False
          then show ?thesis
            using valid by (simp add: p writeTickets_fail console_error_def readTickets_file)
        qed
      qed
    qed
  qed
qed

lemma persisted_step:
  "persisted (snd (post_tickets e body s)) = persisted s
   \<or> (\<exists>title description. map_of body ''title'' = Some title \<and> map_of body ''description'' = Some description
        \<and> truthy title \<and> truthy description \<and> writable e
        \<and> persisted (snd (post_tickets e body s)) =
            map rendered (persisted s) @ [rendered (newTicket e title description)])"
  using post_tickets_file [of e body s]
proof (elim disjE exE conjE)
  assume "ticketsFile (snd (post_tickets e body s)) = ticketsFile s"
  then have "persisted (snd (post_tickets e body s)) = persisted s" by (rule persisted_cong)
  then show ?thesis by simp
next
  fix title description xs
  assume h: "map_of body ''title'' = Some title" "map_of body ''description'' = Some description"
    "truthy title" "truthy description" "writable e" "fst (readTickets s) = JArr xs"
    "ticketsFile (snd (post_tickets e body s)) =
            Stored (Document (JArr (map rendered xs @ [rendered (newTicket e title description)])))"
  have "persisted s = xs"
    by (simp add: persisted_def h(6))
  moreover have "persisted (snd (post_tickets e body s)) = map rendered xs @ [rendered (newTicket e title description)]"
    by (simp add: persisted_def readTickets_document [OF h(7)])
  ultimately show ?thesis using h(1-5) by simp
qed

lemma get_tickets_array:
  assumes "fst (readTickets s) = JArr xs"
  shows "fst (get_tickets s) = Sent 200 (Document (JArr (map rendered xs)))"
  using assms by (simp add: get_tickets_def JSON_stringify_def case_prod_beta)

lemma post_tickets_written:
  assumes "map_of body ''title'' = Some title" "map_of body ''description'' = Some description"
    "truthy title" "truthy description" "fst (readTickets s) = JArr xs" "writable e"
  shows "ticketsFile (snd (post_tickets e body s)) =
           Stored (Document (JArr (map rendered xs @ [rendered (newTicket e title description)])))"
  using assms by (simp add: post_tickets_valid writeTickets_ok)

lemma get_tickets_after_post:
  assumes "map_of body ''title'' = Some title" "map_of body ''description'' = Some description"
    "truthy title" "truthy description" "fst (readTickets s) = JArr xs" "writable e"
  shows "fst (get_tickets (snd (post_tickets e body s))) =
           Sent 200 (Document (JArr (map rendered xs @ [rendered (newTicket e title description)])))"
proof -
  have "fst (readTickets (snd (post_tickets e body s))) =
          JArr (map rendered xs @ [rendered (newTicket e title description)])"
    by (simp add: readTickets_document [OF post_tickets_written [OF assms]])
  then show ?thesis
    by (simp add: get_tickets_array rendered_idem)
qed

lemma ids_rendered:
  assumes "map (\<lambda>t. field t ''id'') xs = map (\<lambda>u. Some (JStr u)) us"
  shows "map (\<lambda>t. field t ''id'') (map rendered xs) = map (\<lambda>u. Some (JStr u)) us"
proof -
  have "map (\<lambda>t. field t ''id'') (map rendered xs) = map (map_option rendered) (map (\<lambda>t. field t ''id'') xs)"
    by (simp add: field_rendered)
  also have "\<dots> = map (\<lambda>u. Some (JStr u)) us"
    unfolding assms by simp
  finally show ?thesis .
qed

lemma post_tickets_not_stored:
  assumes "\<not> stores e body"
  shows "ticketsFile (snd (post_tickets e body s)) = ticketsFile s"
  using post_tickets_file [of e body s] assms
  by (auto simp: stores_def)

lemma stores_written:
  assumes "stores e body" "fst (readTickets s) = JArr xs"
  shows "\<exists>x. field x ''id'' = Some (JStr (uuidv4 e))
           \<and> fst (readTickets (snd (post_tickets e body s))) = JArr (map rendered xs @ [x])"
proof -
  from assms(1) obtain title description where
    h: "map_of body ''title'' = Some title" "map_of body ''description'' = Some description"
       "truthy title" "truthy description" and w: "writable e"
    by (auto simp: stores_def split: option.splits)
  have "fst (readTickets (snd (post_tickets e body s))) =
          JArr (map rendered xs @ [rendered (newTicket e title description)])"
    by (simp add: readTickets_document [OF post_tickets_written [OF h assms(2) w]])
  moreover have "field (rendered (newTicket e title description)) ''id'' = Some (JStr (uuidv4 e))"
    by (simp add: newTicket_def)
  ultimately show ?thesis by blast
qed

lemma run_ids_exact:
  assumes "fst (readTickets s) = JArr xs"
    and "map (\<lambda>t. field t ''id'') xs = map (\<lambda>u. Some (JStr u)) us"
  shows "map (\<lambda>t. field t ''id'') (persisted (run cs s)) =
           map (\<lambda>u. Some (JStr u)) (us @ map (\<lambda>c. uuidv4 (fst c)) (filter (\<lambda>c. stores (fst c) (snd c)) cs))"
  using assms
proof (induction cs arbitrary: s xs us)
  case Nil
  then show ?case by (simp add: persisted_def)
next
  case (Cons c cs)
  obtain e body where c: "c = (e, body)" by (cases c)
  let ?s' = "snd (post_tickets e body s)"
  show ?case
  proof (cases "stores e body")
    case True
    from stores_written [OF True Cons.prems(1)] obtain x where
      x: "field x ''id'' = Some (JStr (uuidv4 e))"
         "fst (readTickets ?s') = JArr (map rendered xs @ [x])"
      by blast
    have "map (\<lambda>t. field t ''id'') (map rendered xs @ [x]) = map (\<lambda>u. Some (JStr u)) (us @ [uuidv4 e])"
      using ids_rendered [OF Cons.prems(2)] x(1) by simp
    from Cons.IH [OF x(2) this] show ?thesis
      using True by (simp add: c)
  next
    case False
    have "fst (readTickets ?s') = JArr xs"
      using readTickets_cong [OF post_tickets_not_stored [OF False, of s]] Cons.prems(1) by simp
    from Cons.IH [OF this Cons.prems(2)] show ?thesis
      using False by (simp add: c)
  qed
qed

lemma run_fields:
  assumes Q: "\<And>v. Q v \<Longrightarrow> Q (rendered v)"
    and A: "\<And>v. A v \<Longrightarrow> truthy v \<Longrightarrow> Q (rendered v)"
    and reqs: "\<forall>c\<in>set cs. \<forall>k\<in>{''title'', ''description''}. \<forall>v. map_of (snd c) k = Some v \<longrightarrow> A v"
    and inv: "\<forall>t\<in>set (persisted s). \<forall>k\<in>{''title'', ''description''}. \<exists>v. field t k = Some v \<and> Q v"
  shows "\<forall>t\<in>set (persisted (run cs s)). \<forall>k\<in>{''title'', ''description''}. \<exists>v. field t k = Some v \<and> Q v"
  using reqs inv
proof (induction cs arbitrary: s)
  case Nil
  then show ?case by simp
next
  case (Cons c cs)
  obtain e body where c: "c = (e, body)" by (cases c)
  let ?s' = "snd (post_tickets e body s)"
  have "\<forall>t\<in>set (persisted ?s'). \<forall>k\<in>{''title'', ''description''}. \<exists>v. field t k = Some v \<and> Q v"
    using persisted_step [of e body s]
  proof (elim disjE exE conjE)
    assume "persisted ?s' = persisted s"
    with Cons.prems(2) show ?thesis by simp
  next
    fix title description
    assume h: "map_of body ''title'' = Some title" "map_of body ''description'' = Some description"
        "truthy title" "truthy description"
      and p: "persisted ?s' = map rendered (persisted s) @ [rendered (newTicket e title description)]"
    have old: "\<exists>v. field (rendered t) k = Some v \<and> Q v"
      if "t \<in> set (persisted s)" "k \<in> {''title'', ''description''}" for t k
    proof -
      from Cons.prems(2) that obtain v where "field t k = Some v" "Q v" by blast
      then show ?thesis by (simp add: field_rendered Q)
    qed
    have "A title" "A description"
      using Cons.prems(1) h(1,2) by (simp_all add: c)
    then have "Q (rendered title)" "Q (rendered description)"
      using h(3,4) by (simp_all add: A)
    then have new: "\<exists>v. field (rendered (newTicket e title description)) k = Some v \<and> Q v"
      if "k \<in> {''title'', ''description''}" for k
      using that by (auto simp: newTicket_def)
    show ?thesis
      unfolding p using old new by auto
  qed
  moreover have "\<forall>c\<in>set cs. \<forall>k\<in>{''title'', ''description''}. \<forall>v. map_of (snd c) k = Some v \<longrightarrow> A v"
    using Cons.prems(1) by simp
  ultimately have "\<forall>t\<in>set (persisted (run cs ?s')). \<forall>k\<in>{''title'', ''description''}. \<exists>v. field t k = Some v \<and> Q v"
    by (rule Cons.IH [rotated])
  then show ?case by (simp add: c)
qed

section \<open>Validation\<close>

text \<open>
  C3. A create request whose title or description is absent, null or the empty string is
  answered with status 400 and the message that both fields are required; the store is
  not touched: the file and the console are as they were.
\<close>

theorem post_tickets_rejects_blank:
  assumes "map_of body ''title'' \<in> {None, Some JNull, Some (JStr [])}
         \<or> map_of body ''description'' \<in> {None, Some JNull, Some (JStr [])}"
  shows "post_tickets e body s =
           (Sent 400 (Document (JObj [(''error'', JStr ''Title and description are required fields'')])), s)"
  using assms
  by (auto simp: post_tickets_def rejected_def JSON_stringify_def split: option.splits)

theorem post_tickets_rejects_blank_witness:
  "post_tickets \<lparr>uuidv4 = ''u1'', toISOString = ''t1'', writable = True\<rparr>
     [(''title'', JStr ''''), (''description'', JStr ''Cannot log in'')]
     \<lparr>ticketsFile = Stored (Document (JArr [])), console = []\<rparr>
   = (Sent 400 (Document (JObj [(''error'', JStr ''Title and description are required fields'')])),
      \<lparr>ticketsFile = Stored (Document (JArr [])), console = []\<rparr>)"
  using post_tickets_rejects_blank
    [of "[(''title'', JStr ''''), (''description'', JStr ''Cannot log in'')]"
        "\<lparr>uuidv4 = ''u1'', toISOString = ''t1'', writable = True\<rparr>"
        "\<lparr>ticketsFile = Stored (Document (JArr [])), console = []\<rparr>"]
  by simp

section \<open>A write the storage refuses\<close>

text \<open>
  C1, as amended. \<open>writeTickets\<close> catches the error of a refused write and prints it on
  the console; nothing reaches the handler. So for a create request whose title and
  description pass the validation, when the collection read is an array and the storage
  refuses the write, the response is still 201 with the new ticket, the console gets the line
  \<open>Error writing tickets\<close>, and the file is what it was.
\<close>

theorem post_tickets_write_failure:
  assumes "map_of body ''title'' = Some title" "map_of body ''description'' = Some description"
    "truthy title" "truthy description" "fst (readTickets s) = JArr xs" "\<not> writable e"
  shows "post_tickets e body s =
           (Sent 201 (Document (rendered (newTicket e title description))),
            console_error (Error_writing_tickets EACCES) (snd (readTickets s)))
         \<and> ticketsFile (snd (post_tickets e body s)) = ticketsFile s"
  using assms
  by (simp add: post_tickets_valid writeTickets_fail console_error_def readTickets_file)

text \<open>
  The claim as stated (no 201 when the write did not happen) fails on an empty collection
  with a refused write: the response is 201 with the ticket, and the file still holds the
  empty array.
\<close>

theorem post_tickets_write_failure_counterexample:
  "post_tickets \<lparr>uuidv4 = ''u1'', toISOString = ''t1'', writable = False\<rparr>
     [(''title'', JStr ''Fix login bug''), (''description'', JStr ''Cannot log in'')]
     \<lparr>ticketsFile = Stored (Document (JArr [])), console = []\<rparr>
   = (Sent 201 (Document (JObj [(''id'', JStr ''u1''), (''title'', JStr ''Fix login bug''),
                                (''description'', JStr ''Cannot log in''), (''createdAt'', JStr ''t1'')])),
      \<lparr>ticketsFile = Stored (Document (JArr [])), console = [Error_writing_tickets EACCES]\<rparr>)"
  by (simp add: post_tickets_def readTickets_def readFileSync_def newTicket_def
      JSON_stringify_def writeTickets_def writeFileSync_def console_error_def)

text \<open>The amended statement at a request on a missing file with a refused write.\<close>

theorem post_tickets_write_failure_witness:
  "post_tickets \<lparr>uuidv4 = ''u2'', toISOString = ''t2'', writable = False\<rparr>
     [(''title'', JStr ''A''), (''description'', JStr ''B'')]
     \<lparr>ticketsFile = Absent, console = []\<rparr>
   = (Sent 201 (Document (JObj [(''id'', JStr ''u2''), (''title'', JStr ''A''),
                                (''description'', JStr ''B''), (''createdAt'', JStr ''t2'')])),
      \<lparr>ticketsFile = Absent, console = [Error_reading_tickets ENOENT, Error_writing_tickets EACCES]\<rparr>)
   \<and> ticketsFile (snd (post_tickets \<lparr>uuidv4 = ''u2'', toISOString = ''t2'', writable = False\<rparr>
     [(''title'', JStr ''A''), (''description'', JStr ''B'')]
     \<lparr>ticketsFile = Absent, console = []\<rparr>)) = Absent"
  using post_tickets_write_failure
    [of "[(''title'', JStr ''A''), (''description'', JStr ''B'')]" "JStr ''A''" "JStr ''B''"
        "\<lparr>ticketsFile = Absent, console = []\<rparr>" "[]"
        "\<lparr>uuidv4 = ''u2'', toISOString = ''t2'', writable = False\<rparr>"]
  by (simp add: readTickets_absent newTicket_def console_error_def)

section \<open>Field preservation\<close>

text \<open>
  C4, as amended. For a create request whose title and description are non-empty strings,
  when the collection read is an array (a missing or unparsable file reads as the empty
  array) and the storage accepts the write, the response is 201 with a ticket that carries
  the generated id, the title and the description as supplied and the creation time, and the
  listing that follows ends with that same ticket.
\<close>

theorem post_tickets_preserves_fields:
  assumes "map_of body ''title'' = Some (JStr t)" "t \<noteq> []"
    "map_of body ''description'' = Some (JStr d)" "d \<noteq> []"
    "fst (readTickets s) = JArr xs" "writable e"
  shows "fst (post_tickets e body s) =
           Sent 201 (Document (JObj [(''id'', JStr (uuidv4 e)), (''title'', JStr t),
                                     (''description'', JStr d), (''createdAt'', JStr (toISOString e))]))
       \<and> fst (get_tickets (snd (post_tickets e body s))) =
           Sent 200 (Document (JArr (map rendered xs @
             [JObj [(''id'', JStr (uuidv4 e)), (''title'', JStr t),
                    (''description'', JStr d), (''createdAt'', JStr (toISOString e))]])))"
proof -
  have v: "truthy (JStr t)" "truthy (JStr d)" using assms(2,4) by simp_all
  have r: "rendered (newTicket e (JStr t) (JStr d)) =
       JObj [(''id'', JStr (uuidv4 e)), (''title'', JStr t),
             (''description'', JStr d), (''createdAt'', JStr (toISOString e))]"
    by (simp add: newTicket_def)
  have "fst (post_tickets e body s) = Sent 201 (Document (rendered (newTicket e (JStr t) (JStr d))))"
    by (simp add: post_tickets_valid [OF assms(1,3) v assms(5)])
  moreover note get_tickets_after_post [OF assms(1,3) v assms(5,6)]
  ultimately show ?thesis by (simp only: r)
qed

text \<open>
  The claim as stated, for every request with a valid title and description, fails in two
  places. With a refused write the response is 201 and the listing that follows is empty.
  With a file that holds the JSON object \<open>{}\<close> the append raises a \<open>TypeError\<close> and
  no 201 is sent.
\<close>

theorem post_tickets_preserves_fields_counterexample:
  "fst (post_tickets \<lparr>uuidv4 = ''u1'', toISOString = ''t1'', writable = False\<rparr>
     [(''title'', JStr ''Fix login bug''), (''description'', JStr ''Cannot log in'')]
     \<lparr>ticketsFile = Stored (Document (JArr [])), console = []\<rparr>)
   = Sent 201 (Document (JObj [(''id'', JStr ''u1''), (''title'', JStr ''Fix login bug''),
                                (''description'', JStr ''Cannot log in''), (''createdAt'', JStr ''t1'')]))
   \<and> fst (get_tickets (snd (post_tickets \<lparr>uuidv4 = ''u1'', toISOString = ''t1'', writable = False\<rparr>
     [(''title'', JStr ''Fix login bug''), (''description'', JStr ''Cannot log in'')]
     \<lparr>ticketsFile = Stored (Document (JArr [])), console = []\<rparr>)))
   = Sent 200 (Document (JArr []))
   \<and> fst (post_tickets \<lparr>uuidv4 = ''u1'', toISOString = ''t1'', writable = True\<rparr>
     [(''title'', JStr ''Fix login bug''), (''description'', JStr ''Cannot log in'')]
     \<lparr>ticketsFile = Stored (Document (JObj [])), console = []\<rparr>)
   = Threw TypeError"
  by (simp add: post_tickets_def readTickets_def readFileSync_def newTicket_def
      JSON_stringify_def writeTickets_def writeFileSync_def console_error_def get_tickets_def)

text \<open>The amended statement at the first ticket of an empty collection.\<close>

theorem post_tickets_preserves_fields_witness:
  "fst (post_tickets \<lparr>uuidv4 = ''u1'', toISOString = ''t1'', writable = True\<rparr>
     [(''title'', JStr ''Fix login bug''), (''description'', JStr ''Cannot log in'')]
     \<lparr>ticketsFile = Stored (Document (JArr [])), console = []\<rparr>)
   = Sent 201 (Document (JObj [(''id'', JStr ''u1''), (''title'', JStr ''Fix login bug''),
                                (''description'', JStr ''Cannot log in''), (''createdAt'', JStr ''t1'')]))
   \<and> fst (get_tickets (snd (post_tickets \<lparr>uuidv4 = ''u1'', toISOString = ''t1'', writable = True\<rparr>
     [(''title'', JStr ''Fix login bug''), (''description'', JStr ''Cannot log in'')]
     \<lparr>ticketsFile = Stored (Document (JArr [])), console = []\<rparr>)))
   = Sent 200 (Document (JArr [JObj [(''id'', JStr ''u1''), (''title'', JStr ''Fix login bug''),
                                (''description'', JStr ''Cannot log in''), (''createdAt'', JStr ''t1'')]]))"
  using post_tickets_preserves_fields
    [of "[(''title'', JStr ''Fix login bug''), (''description'', JStr ''Cannot log in'')]"
        "''Fix login bug''" "''Cannot log in''"
        "\<lparr>ticketsFile = Stored (Document (JArr [])), console = []\<rparr>" "[]"
        "\<lparr>uuidv4 = ''u1'', toISOString = ''t1'', writable = True\<rparr>"]
  by (simp add: readTickets_document)

section \<open>Initialisation\<close>

text \<open>
  C5. \<open>initializeTicketsFile\<close> leaves every state with a file as it is, whatever the
  file holds; on a state without a file it stores the empty array when the storage accepts
  the write, and otherwise the error of the write raises out of it and nothing is stored.
  A second call after a call that returned changes nothing.
\<close>

theorem initializeTicketsFile_idempotent:
  "(existsSync s \<longrightarrow> initializeTicketsFile e s = Inr s)
   \<and> (\<not> existsSync s \<and> writable e \<longrightarrow>
        initializeTicketsFile e s = Inr (s\<lparr>ticketsFile := Stored (Document (JArr []))\<rparr>))
   \<and> (\<not> existsSync s \<and> \<not> writable e \<longrightarrow> initializeTicketsFile e s = Inl EACCES)
   \<and> (\<forall>s'. initializeTicketsFile e s = Inr s' \<longrightarrow> initializeTicketsFile e' s' = Inr s')"
  by (auto simp: initializeTicketsFile_def existsSync_def writeFileSync_def JSON_stringify_def)

text \<open>
  At a missing file the empty array is stored, a second call keeps it, and a file that holds
  a ticket is kept.
\<close>

theorem initializeTicketsFile_idempotent_witness:
  "initializeTicketsFile \<lparr>uuidv4 = ''u1'', toISOString = ''t1'', writable = True\<rparr>
     \<lparr>ticketsFile = Absent, console = []\<rparr>
   = Inr \<lparr>ticketsFile = Stored (Document (JArr [])), console = []\<rparr>
   \<and> initializeTicketsFile \<lparr>uuidv4 = ''u2'', toISOString = ''t2'', writable = False\<rparr>
     \<lparr>ticketsFile = Stored (Document (JArr [])), console = []\<rparr>
   = Inr \<lparr>ticketsFile = Stored (Document (JArr [])), console = []\<rparr>
   \<and> initializeTicketsFile \<lparr>uuidv4 = ''u3'', toISOString = ''t3'', writable = True\<rparr>
     \<lparr>ticketsFile = Stored (Document (JArr [JObj [(''id'', JStr ''u0'')]])), console = []\<rparr>
   = Inr \<lparr>ticketsFile = Stored (Document (JArr [JObj [(''id'', JStr ''u0'')]])), console = []\<rparr>"
  using initializeTicketsFile_idempotent
    [of "\<lparr>ticketsFile = Absent, console = []\<rparr>"
        "\<lparr>uuidv4 = ''u1'', toISOString = ''t1'', writable = True\<rparr>"
        "\<lparr>uuidv4 = ''u2'', toISOString = ''t2'', writable = False\<rparr>"]
    initializeTicketsFile_idempotent
    [of "\<lparr>ticketsFile = Stored (Document (JArr [JObj [(''id'', JStr ''u0'')]])), console = []\<rparr>"
        "\<lparr>uuidv4 = ''u3'', toISOString = ''t3'', writable = True\<rparr>"]
  by (simp add: existsSync_def)

section \<open>Insertion order\<close>

text \<open>
  C6, as amended. When the collection read is the array \<open>xs\<close> (a missing or unparsable
  file reads as the empty array), \<open>GET /tickets\<close> answers 200 with the elements of \<open>xs\<close>
  in their order, so with the empty array when there are none. A create request that passes
  the validation, when the storage accepts the write, stores \<open>xs\<close> with the new ticket as
  last element, and the listing that follows is the listing before with the ticket of the 201
  response appended.
\<close>

theorem post_tickets_appends:
  assumes "fst (readTickets s) = JArr xs"
  shows "fst (get_tickets s) = Sent 200 (Document (JArr (map rendered xs)))
       \<and> (\<forall>title description.
            map_of body ''title'' = Some title \<and> map_of body ''description'' = Some description
            \<and> truthy title \<and> truthy description \<and> writable e \<longrightarrow>
            fst (post_tickets e body s) = Sent 201 (Document (rendered (newTicket e title description)))
            \<and> ticketsFile (snd (post_tickets e body s)) =
                Stored (Document (JArr (map rendered xs @ [rendered (newTicket e title description)])))
            \<and> fst (get_tickets (snd (post_tickets e body s))) =
                Sent 200 (Document (JArr (map rendered xs @ [rendered (newTicket e title description)]))))"
proof (intro conjI allI impI)
  show "fst (get_tickets s) = Sent 200 (Document (JArr (map rendered xs)))"
    by (rule get_tickets_array [OF assms])
next
  fix title description
  assume "map_of body ''title'' = Some title \<and> map_of body ''description'' = Some description
            \<and> truthy title \<and> truthy description \<and> writable e"
  then have h: "map_of body ''title'' = Some title" "map_of body ''description'' = Some description"
    "truthy title" "truthy description" and w: "writable e"
    by simp_all
  show "fst (post_tickets e body s) = Sent 201 (Document (rendered (newTicket e title description)))"
    by (simp add: post_tickets_valid [OF h assms])
  show "ticketsFile (snd (post_tickets e body s)) =
          Stored (Document (JArr (map rendered xs @ [rendered (newTicket e title description)])))"
    by (rule post_tickets_written [OF h assms w])
  show "fst (get_tickets (snd (post_tickets e body s))) =
          Sent 200 (Document (JArr (map rendered xs @ [rendered (newTicket e title description)])))"
    by (rule get_tickets_after_post [OF h assms w])
qed

text \<open>
  The claim as stated, for every store state, fails when the storage refuses the write: the
  create request is answered with 201 and the listing after it is the listing before it.
\<close>

theorem post_tickets_appends_counterexample:
  "fst (get_tickets \<lparr>ticketsFile = Stored (Document (JArr [JStr ''t0''])), console = []\<rparr>)
   = Sent 200 (Document (JArr [JStr ''t0'']))
   \<and> post_tickets \<lparr>uuidv4 = ''u1'', toISOString = ''t1'', writable = False\<rparr>
     [(''title'', JStr ''A''), (''description'', JStr ''B'')]
     \<lparr>ticketsFile = Stored (Document (JArr [JStr ''t0''])), console = []\<rparr>
   = (Sent 201 (Document (JObj [(''id'', JStr ''u1''), (''title'', JStr ''A''),
                                (''description'', JStr ''B''), (''createdAt'', JStr ''t1'')])),
      \<lparr>ticketsFile = Stored (Document (JArr [JStr ''t0''])), console = [Error_writing_tickets EACCES]\<rparr>)
   \<and> fst (get_tickets
       \<lparr>ticketsFile = Stored (Document (JArr [JStr ''t0''])), console = [Error_writing_tickets EACCES]\<rparr>)
   = Sent 200 (Document (JArr [JStr ''t0'']))"
  by (simp add: post_tickets_def readTickets_def readFileSync_def newTicket_def
      JSON_stringify_def writeTickets_def writeFileSync_def console_error_def get_tickets_def)

text \<open>The amended statement at the first ticket of an empty collection.\<close>

theorem post_tickets_appends_witness:
  "fst (get_tickets \<lparr>ticketsFile = Stored (Document (JArr [])), console = []\<rparr>)
   = Sent 200 (Document (JArr []))
   \<and> fst (get_tickets (snd (post_tickets \<lparr>uuidv4 = ''u1'', toISOString = ''t1'', writable = True\<rparr>
     [(''title'', JStr ''A''), (''description'', JStr ''B'')]
     \<lparr>ticketsFile = Stored (Document (JArr [])), console = []\<rparr>)))
   = Sent 200 (Document (JArr [JObj [(''id'', JStr ''u1''), (''title'', JStr ''A''),
                                (''description'', JStr ''B''), (''createdAt'', JStr ''t1'')]]))"
  using post_tickets_appends
    [of "\<lparr>ticketsFile = Stored (Document (JArr [])), console = []\<rparr>" "[]"
        "[(''title'', JStr ''A''), (''description'', JStr ''B'')]"
        "\<lparr>uuidv4 = ''u1'', toISOString = ''t1'', writable = True\<rparr>"]
  by (simp add: readTickets_document newTicket_def)

section \<open>A file that cannot be read\<close>

text \<open>
  C7. When the file is missing (the read raises) or its content is not JSON (the parse
  raises), \<open>GET /tickets\<close> prints the error on the console and answers 200 with the empty
  array.
\<close>

theorem get_tickets_unreadable:
  assumes "ticketsFile s = Absent \<or> ticketsFile s = Stored Garbage"
  shows "get_tickets s =
           (Sent 200 (Document (JArr [])),
            console_error
              (Error_reading_tickets (if ticketsFile s = Absent then ENOENT else SyntaxError)) s)"
  using assms
  by (auto simp: get_tickets_def readTickets_absent readTickets_garbage JSON_stringify_def)

text \<open>At a file whose content is not JSON.\<close>

theorem get_tickets_unreadable_witness:
  "get_tickets \<lparr>ticketsFile = Stored Garbage, console = []\<rparr>
   = (Sent 200 (Document (JArr [])),
      \<lparr>ticketsFile = Stored Garbage, console = [Error_reading_tickets SyntaxError]\<rparr>)"
  using get_tickets_unreadable [of "\<lparr>ticketsFile = Stored Garbage, console = []\<rparr>"]
  by (simp add: console_error_def)

section \<open>A file that holds JSON other than an array\<close>

text \<open>
  C10. When the file holds JSON that is not an array, a create request that passes the
  validation raises a \<open>TypeError\<close> at \<open>tickets.push\<close>: the handler sends no response,
  and the file and the console are as they were.
\<close>

theorem post_tickets_not_array:
  assumes "map_of body ''title'' = Some title" "map_of body ''description'' = Some description"
    "truthy title" "truthy description"
    "ticketsFile s = Stored (Document v)" "\<forall>xs. v \<noteq> JArr xs"
  shows "post_tickets e body s = (Threw TypeError, s)"
proof -
  have "push v (newTicket e title description) = Inl TypeError"
    using assms(6) by (cases v) simp_all
  then show ?thesis
    by (simp add: post_tickets_unfold [OF assms(1-4)] readTickets_document [OF assms(5)])
qed

text \<open>At a file that holds an object with a \<open>tickets\<close> property.\<close>

theorem post_tickets_not_array_witness:
  "post_tickets \<lparr>uuidv4 = ''u1'', toISOString = ''t1'', writable = True\<rparr>
     [(''title'', JStr ''Fix login bug''), (''description'', JStr ''Cannot log in'')]
     \<lparr>ticketsFile = Stored (Document (JObj [(''tickets'', JArr [])])), console = []\<rparr>
   = (Threw TypeError,
      \<lparr>ticketsFile = Stored (Document (JObj [(''tickets'', JArr [])])), console = []\<rparr>)"
  using post_tickets_not_array
    [of "[(''title'', JStr ''Fix login bug''), (''description'', JStr ''Cannot log in'')]"
        "JStr ''Fix login bug''" "JStr ''Cannot log in''"
        "\<lparr>ticketsFile = Stored (Document (JObj [(''tickets'', JArr [])])), console = []\<rparr>"
        "JObj [(''tickets'', JArr [])]"
        "\<lparr>uuidv4 = ''u1'', toISOString = ''t1'', writable = True\<rparr>"]
  by simp

section \<open>Identifiers\<close>

text \<open>
  C8, as amended. The identifier of a ticket is the value \<open>uuidv4()\<close> returned to its create
  request; the program compares no identifiers and never changes one it has stored. When the
  collection read is an array whose identifiers are the strings \<open>us\<close>, the identifiers
  stored after any sequence of create requests are \<open>us\<close> followed, in order, by the values
  \<open>uuidv4()\<close> returned to the requests that were stored. So no two stored tickets share an
  identifier exactly when these values are pairwise distinct.
\<close>

theorem run_ids_issued:
  assumes "fst (readTickets s) = JArr xs"
    and "map (\<lambda>t. field t ''id'') xs = map (\<lambda>u. Some (JStr u)) us"
  shows "map (\<lambda>t. field t ''id'') (persisted (run cs s)) =
           map (\<lambda>u. Some (JStr u)) (us @ map (\<lambda>c. uuidv4 (fst c)) (filter (\<lambda>c. stores (fst c) (snd c)) cs))
       \<and> (distinct (map (\<lambda>t. field t ''id'') (persisted (run cs s))) \<longleftrightarrow>
            distinct (us @ map (\<lambda>c. uuidv4 (fst c)) (filter (\<lambda>c. stores (fst c) (snd c)) cs)))"
proof -
  let ?ws = "us @ map (\<lambda>c. uuidv4 (fst c)) (filter (\<lambda>c. stores (fst c) (snd c)) cs)"
  have eq: "map (\<lambda>t. field t ''id'') (persisted (run cs s)) = map (\<lambda>u. Some (JStr u)) ?ws"
    by (rule run_ids_exact [OF assms])
  have "distinct (map (\<lambda>u. Some (JStr u)) ?ws) \<longleftrightarrow> distinct ?ws"
    unfolding distinct_map by (simp add: inj_on_def)
  with eq show ?thesis by (simp only:)
qed

text \<open>
  The claim as stated fails when \<open>uuidv4()\<close> returns the same value to two create requests:
  both tickets are stored, with the same identifier.
\<close>

theorem run_ids_issued_counterexample:
  "\<not> distinct (map (\<lambda>t. field t ''id'')
     (persisted (run [(\<lparr>uuidv4 = ''u1'', toISOString = ''t1'', writable = True\<rparr>,
                       [(''title'', JStr ''A''), (''description'', JStr ''B'')]),
                      (\<lparr>uuidv4 = ''u1'', toISOString = ''t2'', writable = True\<rparr>,
                       [(''title'', JStr ''C''), (''description'', JStr ''D'')])]
                 \<lparr>ticketsFile = Stored (Document (JArr [])), console = []\<rparr>)))"
  by (simp add: persisted_def post_tickets_def readTickets_def readFileSync_def newTicket_def
      JSON_stringify_def writeTickets_def writeFileSync_def)

text \<open>
  The amended statement at a collection of one ticket and four requests: the second is
  rejected by the validation, the write of the third is refused, the first and the fourth
  are stored.
\<close>

theorem run_ids_issued_witness:
  "map (\<lambda>t. field t ''id'')
     (persisted (run [(\<lparr>uuidv4 = ''u1'', toISOString = ''t1'', writable = True\<rparr>,
                       [(''title'', JStr ''A''), (''description'', JStr ''B'')]),
                      (\<lparr>uuidv4 = ''u2'', toISOString = ''t2'', writable = True\<rparr>,
                       [(''title'', JStr ''''), (''description'', JStr ''B'')]),
                      (\<lparr>uuidv4 = ''u3'', toISOString = ''t3'', writable = False\<rparr>,
                       [(''title'', JStr ''A''), (''description'', JStr ''B'')]),
                      (\<lparr>uuidv4 = ''u4'', toISOString = ''t4'', writable = True\<rparr>,
                       [(''title'', JStr ''A''), (''description'', JStr ''B'')])]
                 \<lparr>ticketsFile = Stored (Document (JArr
                     [JObj [(''id'', JStr ''u0''), (''title'', JStr ''Old''), (''description'', JStr ''Older''),
                            (''createdAt'', JStr ''t0'')]])), console = []\<rparr>))
   = [Some (JStr ''u0''), Some (JStr ''u1''), Some (JStr ''u4'')]
   \<and> distinct (map (\<lambda>t. field t ''id'')
     (persisted (run [(\<lparr>uuidv4 = ''u1'', toISOString = ''t1'', writable = True\<rparr>,
                       [(''title'', JStr ''A''), (''description'', JStr ''B'')]),
                      (\<lparr>uuidv4 = ''u2'', toISOString = ''t2'', writable = True\<rparr>,
                       [(''title'', JStr ''''), (''description'', JStr ''B'')]),
                      (\<lparr>uuidv4 = ''u3'', toISOString = ''t3'', writable = False\<rparr>,
                       [(''title'', JStr ''A''), (''description'', JStr ''B'')]),
                      (\<lparr>uuidv4 = ''u4'', toISOString = ''t4'', writable = True\<rparr>,
                       [(''title'', JStr ''A''), (''description'', JStr ''B'')])]
                 \<lparr>ticketsFile = Stored (Document (JArr
                     [JObj [(''id'', JStr ''u0''), (''title'', JStr ''Old''), (''description'', JStr ''Older''),
                            (''createdAt'', JStr ''t0'')]])), console = []\<rparr>)))"
  using run_ids_issued
    [of "\<lparr>ticketsFile = Stored (Document (JArr
                     [JObj [(''id'', JStr ''u0''), (''title'', JStr ''Old''), (''description'', JStr ''Older''),
                            (''createdAt'', JStr ''t0'')]])), console = []\<rparr>"
        "[JObj [(''id'', JStr ''u0''), (''title'', JStr ''Old''), (''description'', JStr ''Older''),
                            (''createdAt'', JStr ''t0'')]]"
        "[''u0'']"
        "[(\<lparr>uuidv4 = ''u1'', toISOString = ''t1'', writable = True\<rparr>,
                       [(''title'', JStr ''A''), (''description'', JStr ''B'')]),
                      (\<lparr>uuidv4 = ''u2'', toISOString = ''t2'', writable = True\<rparr>,
                       [(''title'', JStr ''''), (''description'', JStr ''B'')]),
                      (\<lparr>uuidv4 = ''u3'', toISOString = ''t3'', writable = False\<rparr>,
                       [(''title'', JStr ''A''), (''description'', JStr ''B'')]),
                      (\<lparr>uuidv4 = ''u4'', toISOString = ''t4'', writable = True\<rparr>,
                       [(''title'', JStr ''A''), (''description'', JStr ''B'')])]"]
  by (simp add: readTickets_document stores_def)

section \<open>Title and description of stored tickets\<close>

text \<open>
  C9, as amended. The validation tests that title and description are truthy, not that they
  are text. When every stored ticket has a title and a description and neither is the empty
  string, that stays so after any sequence of create requests; and when, in addition, the
  stored titles and descriptions are text and every request gives text for the fields it has,
  the title and the description of every stored ticket are non-empty text.
\<close>

theorem run_fields_nonempty:
  assumes "\<forall>t\<in>set (persisted s). \<forall>k\<in>{''title'', ''description''}. \<exists>v. field t k = Some v \<and> v \<noteq> JStr []"
  shows "(\<forall>t\<in>set (persisted (run cs s)). \<forall>k\<in>{''title'', ''description''}.
            \<exists>v. field t k = Some v \<and> v \<noteq> JStr [])
       \<and> ((\<forall>t\<in>set (persisted s). \<forall>k\<in>{''title'', ''description''}. \<exists>v. field t k = Some v \<and> (\<exists>x. v = JStr x))
           \<and> (\<forall>c\<in>set cs. \<forall>k\<in>{''title'', ''description''}. \<forall>v. map_of (snd c) k = Some v \<longrightarrow> (\<exists>x. v = JStr x))
          \<longrightarrow> (\<forall>t\<in>set (persisted (run cs s)). \<forall>k\<in>{''title'', ''description''}.
                 \<exists>v. field t k = Some v \<and> (\<exists>x. v = JStr x \<and> x \<noteq> [])))"
proof (intro conjI impI)
  show "\<forall>t\<in>set (persisted (run cs s)). \<forall>k\<in>{''title'', ''description''}.
            \<exists>v. field t k = Some v \<and> v \<noteq> JStr []"
    by (rule run_fields [where A = "\<lambda>v. True" and Q = "\<lambda>v. v \<noteq> JStr []"])
       (auto simp: rendered_string assms)
next
  assume textual: "(\<forall>t\<in>set (persisted s). \<forall>k\<in>{''title'', ''description''}. \<exists>v. field t k = Some v \<and> (\<exists>x. v = JStr x))
           \<and> (\<forall>c\<in>set cs. \<forall>k\<in>{''title'', ''description''}. \<forall>v. map_of (snd c) k = Some v \<longrightarrow> (\<exists>x. v = JStr x))"
  have inv: "\<forall>t\<in>set (persisted s). \<forall>k\<in>{''title'', ''description''}.
      \<exists>v. field t k = Some v \<and> (\<exists>x. v = JStr x \<and> x \<noteq> [])"
  proof (intro ballI)
    fix t k assume tk: "t \<in> set (persisted s)" "k \<in> {''title'', ''description''}"
    with textual obtain x where "field t k = Some (JStr x)" by blast
    moreover from assms tk obtain v where "field t k = Some v" "v \<noteq> JStr []" by blast
    ultimately show "\<exists>v. field t k = Some v \<and> (\<exists>x. v = JStr x \<and> x \<noteq> [])" by auto
  qed
  show "\<forall>t\<in>set (persisted (run cs s)). \<forall>k\<in>{''title'', ''description''}.
                 \<exists>v. field t k = Some v \<and> (\<exists>x. v = JStr x \<and> x \<noteq> [])"
  proof (rule run_fields [where A = "\<lambda>v. \<exists>x. v = JStr x" and Q = "\<lambda>v. \<exists>x. v = JStr x \<and> x \<noteq> []"])
    show "\<And>v. \<exists>x. v = JStr x \<and> x \<noteq> [] \<Longrightarrow> \<exists>x. rendered v = JStr x \<and> x \<noteq> []" by auto
    show "\<And>v. \<exists>x. v = JStr x \<Longrightarrow> truthy v \<Longrightarrow> \<exists>x. rendered v = JStr x \<and> x \<noteq> []" by auto
    show "\<forall>c\<in>set cs. \<forall>k\<in>{''title'', ''description''}. \<forall>v. map_of (snd c) k = Some v \<longrightarrow> (\<exists>x. v = JStr x)"
      using textual by simp
    show "\<forall>t\<in>set (persisted s). \<forall>k\<in>{''title'', ''description''}.
      \<exists>v. field t k = Some v \<and> (\<exists>x. v = JStr x \<and> x \<noteq> [])" by (rule inv)
  qed
qed

text \<open>
  The claim as stated fails at a request whose title is \<open>true\<close> and whose description is
  the number 5: both are truthy, the ticket is stored, and neither field is text.
\<close>

theorem run_fields_nonempty_counterexample:
  "persisted (run [(\<lparr>uuidv4 = ''u1'', toISOString = ''t1'', writable = True\<rparr>,
                    [(''title'', JBool True), (''description'', JNum (Finite 5))])]
                 \<lparr>ticketsFile = Stored (Document (JArr [])), console = []\<rparr>)
   = [JObj [(''id'', JStr ''u1''), (''title'', JBool True), (''description'', JNum (Finite 5)),
            (''createdAt'', JStr ''t1'')]]"
  by (simp add: persisted_def post_tickets_def readTickets_def readFileSync_def newTicket_def
      JSON_stringify_def writeTickets_def writeFileSync_def)

text \<open>The amended statement at a collection of one ticket and one request, all fields text.\<close>

theorem run_fields_nonempty_witness:
  "list_all
     (\<lambda>t. list_all (\<lambda>k. \<exists>v. field t k = Some v \<and> (\<exists>x. v = JStr x \<and> x \<noteq> []))
                   [''title'', ''description''])
     (persisted (run [(\<lparr>uuidv4 = ''u1'', toISOString = ''t1'', writable = True\<rparr>,
                    [(''title'', JStr ''Fix login bug''), (''description'', JStr ''Cannot log in'')])]
                 \<lparr>ticketsFile = Stored (Document (JArr
                     [JObj [(''id'', JStr ''u0''), (''title'', JStr ''Old''), (''description'', JStr ''Older''),
                            (''createdAt'', JStr ''t0'')]])), console = []\<rparr>))"
  using run_fields_nonempty
    [of "\<lparr>ticketsFile = Stored (Document (JArr
                     [JObj [(''id'', JStr ''u0''), (''title'', JStr ''Old''), (''description'', JStr ''Older''),
                            (''createdAt'', JStr ''t0'')]])), console = []\<rparr>"
        "[(\<lparr>uuidv4 = ''u1'', toISOString = ''t1'', writable = True\<rparr>,
                    [(''title'', JStr ''Fix login bug''), (''description'', JStr ''Cannot log in'')])]"]
  by (simp add: list_all_iff persisted_def readTickets_document)

end
